theory Spec2Isabelle
  imports Main "HOL-Library.Word"
begin

section \<open>The Python binding of the syslog parser (usyslog.py)\<close>

text \<open>
  The module wraps a native syslog parser through cffi. It declares the native structs
  and functions, four exception classes, the consumer-side accumulator
  \<open>SyslogMessageHead\<close>, seven callbacks handed to the native parser, and the class
  \<open>Parser\<close>. The native parser itself (usyslog.c) is compiled from another directory;
  its functions appear here as parameters or are modelled from the specification, and
  are marked so.

  Python objects are mutable and shared by reference, so the model keeps them in an
  explicit store: a reference is an index into a list of objects, and creating an object
  appends it. References held by Python are always live; the predicate \<open>live\<close> states
  this for the model.
\<close>

subsection \<open>Values\<close>

type_synonym bytes = "8 word list"
type_synonym addr = nat

text \<open>
  The immutable (and hashable) Python values the module handles: \<open>None\<close>, integers, text
  strings and byte strings. A text string is written as its UTF-8 bytes.
\<close>

datatype pyval = PyNone | PyInt int | PyStr string | PyBytes bytes

subsection \<open>Exceptions\<close>

text \<open>
  \<open>Builtin c m\<close> is an exception of the builtin class \<open>c\<close> with message \<open>m\<close>; the other
  constructors are the four classes of the module with the attributes their
  \<open>__init__\<close> assigns (\<open>msg\<close>, and \<open>cause\<close> for \<open>MessageHandlerError\<close>).
\<close>

datatype exn =
    Builtin string string
  | SyslogError string
  | UnknownTypeError string
  | ParsingError string
  | MessageHandlerError string exn

datatype cls =
  CException | CSyslogError | CUnknownTypeError | CParsingError | CMessageHandlerError

fun class_of :: "exn \<Rightarrow> cls" where
  "class_of (Builtin c m) = CException"
| "class_of (SyslogError m) = CSyslogError"
| "class_of (UnknownTypeError m) = CUnknownTypeError"
| "class_of (ParsingError m) = CParsingError"
| "class_of (MessageHandlerError m c) = CMessageHandlerError"

text \<open>The class statements: each of the three error classes derives from \<open>SyslogError\<close>,
  which derives from \<open>Exception\<close>.\<close>

fun base :: "cls \<Rightarrow> cls option" where
  "base CException = None"
| "base CSyslogError = Some CException"
| "base CUnknownTypeError = Some CSyslogError"
| "base CParsingError = Some CSyslogError"
| "base CMessageHandlerError = Some CSyslogError"

fun issubclass :: "cls \<Rightarrow> cls \<Rightarrow> bool" where
  "issubclass c d =
     (c = d \<or> (case base c of None \<Rightarrow> False
               | Some b \<Rightarrow> b = d \<or> (case base b of None \<Rightarrow> False | Some b' \<Rightarrow> b' = d)))"

definition isinstance :: "exn \<Rightarrow> cls \<Rightarrow> bool" where
  "isinstance e c = issubclass (class_of e) c"

fun msg :: "exn \<Rightarrow> string" where
  "msg (Builtin c m) = m"
| "msg (SyslogError m) = m"
| "msg (UnknownTypeError m) = m"
| "msg (ParsingError m) = m"
| "msg (MessageHandlerError m c) = m"

fun cause :: "exn \<Rightarrow> exn option" where
  "cause (MessageHandlerError m c) = Some c"
| "cause e = None"

text \<open>
  \<open>__str__\<close>: \<open>SyslogError\<close> returns \<open>self.msg\<close> and the subclasses inherit it, except
  \<open>MessageHandlerError\<close>, which formats \<open>msg\<close> and \<open>cause\<close> into
  \<open>'MessageHandler exception: {} - {}'\<close>.
\<close>

fun str_exn :: "exn \<Rightarrow> string" where
  "str_exn (Builtin c m) = m"
| "str_exn (SyslogError m) = m"
| "str_exn (UnknownTypeError m) = m"
| "str_exn (ParsingError m) = m"
| "str_exn (MessageHandlerError m c) =
     ''MessageHandler exception: '' @ m @ '' - '' @ str_exn c"

definition AttributeError :: "string \<Rightarrow> exn" where
  "AttributeError name = Builtin ''AttributeError'' name"

definition TypeError :: "string \<Rightarrow> exn" where
  "TypeError m = Builtin ''TypeError'' m"

definition RuntimeError :: "string \<Rightarrow> exn" where
  "RuntimeError m = Builtin ''RuntimeError'' m"


subsection \<open>Dictionaries\<close>

text \<open>
  A \<open>dict\<close> keeps its keys in insertion order: the model is a list of key-value pairs.
  \<open>d[k] = v\<close> replaces the value where the key is present and appends the pair
  otherwise; \<open>d.get(k)\<close> is the first (and only) value stored under \<open>k\<close>, or \<open>None\<close>;
  iterating a dict walks its keys in order.
\<close>

type_synonym ('k, 'v) dict = "('k \<times> 'v) list"

primrec setitem :: "('k, 'v) dict \<Rightarrow> 'k \<Rightarrow> 'v \<Rightarrow> ('k, 'v) dict" where
  "setitem [] k v = [(k, v)]"
| "setitem (p # ps) k v = (if fst p = k then (k, v) # ps else p # setitem ps k v)"

definition dict_get :: "('k, 'v) dict \<Rightarrow> 'k \<Rightarrow> 'v option" where
  "dict_get d k = map_of d k"

definition keys :: "('k, 'v) dict \<Rightarrow> 'k list" where
  "keys d = map fst d"

subsection \<open>SyslogMessageHead\<close>

text \<open>
  The attributes of an instance. \<open>sd\<close> refers to a dict from element names to element
  dicts, \<open>current_sde\<close> is \<open>None\<close> or refers to an element dict.
\<close>

record SyslogMessageHead =
  priority :: pyval
  version :: pyval
  timestamp :: pyval
  hostname :: pyval
  appname :: pyval
  processid :: pyval
  messageid :: pyval
  sd :: addr
  current_sde :: "addr option"
  current_sd_field :: pyval

text \<open>What \<open>print\<close> was called with: a value, or an object (by reference).\<close>

datatype printed = Val pyval | Obj addr

text \<open>
  The store: the \<open>SyslogMessageHead\<close> instances, the dicts bound to \<open>sd\<close> (names to
  references of element dicts), the element dicts, the table of cffi handles (handle
  \<open>i\<close> stands for the object \<open>handles ! i\<close>), standard output as the list of printed
  arguments, and the exceptions cffi reported on standard error.
\<close>

record world =
  objs :: "SyslogMessageHead list"
  sd_dicts :: "(pyval, addr) dict list"
  sde_dicts :: "(pyval, pyval) dict list"
  handles :: "addr list"
  stdout :: "printed list"
  stderr :: "exn list"

definition world0 :: world where
  "world0 = \<lparr>objs = [], sd_dicts = [], sde_dicts = [], handles = [], stdout = [], stderr = []\<rparr>"

text \<open>An instance before \<open>__init__\<close> has assigned any attribute; \<open>reset\<close> assigns all ten.\<close>

definition blank :: SyslogMessageHead where
  "blank = \<lparr>priority = PyNone, version = PyNone, timestamp = PyNone, hostname = PyNone,
            appname = PyNone, processid = PyNone, messageid = PyNone, sd = 0,
            current_sde = None, current_sd_field = PyNone\<rparr>"

text \<open>\<open>reset\<close>: seven empty strings, a new empty dict, and two \<open>None\<close>s.\<close>

definition SyslogMessageHead_reset :: "addr \<Rightarrow> world \<Rightarrow> world" where
  "SyslogMessageHead_reset self w =
     (let d = length (sd_dicts w)
      in w\<lparr>sd_dicts := sd_dicts w @ [[]],
            objs := (objs w)[self := (objs w ! self)
              \<lparr>priority := PyStr '''', version := PyStr '''', timestamp := PyStr '''',
               hostname := PyStr '''', appname := PyStr '''', processid := PyStr '''',
               messageid := PyStr '''', sd := d, current_sde := None,
               current_sd_field := PyNone\<rparr>]\<rparr>)"

text \<open>\<open>SyslogMessageHead()\<close>: a new instance, on which \<open>__init__\<close> calls \<open>reset\<close>.\<close>

definition SyslogMessageHead_init :: "world \<Rightarrow> addr \<times> world" where
  "SyslogMessageHead_init w =
     (let self = length (objs w)
      in (self, SyslogMessageHead_reset self (w\<lparr>objs := objs w @ [blank]\<rparr>)))"

text \<open>
  What a caller can pass as the name to \<open>get_sd\<close>: one of the hashable values above, or
  an object of an unhashable type (a list, a dict, a set), given by the name of its type.
\<close>

datatype pyobj = Hashable pyval | Unhashable string

text \<open>
  \<open>get_sd\<close>: \<open>self.sd.get(name)\<close>. \<open>dict.get\<close> hashes the name first and raises
  \<open>TypeError\<close> for an object of an unhashable type; otherwise the result is a reference
  to the element dict, or \<open>None\<close>.
\<close>

definition get_sd :: "addr \<Rightarrow> pyobj \<Rightarrow> world \<Rightarrow> (exn + addr option) \<times> world" where
  "get_sd self name w =
     (case name of
        Unhashable t \<Rightarrow>
          (Inl (TypeError (''unhashable type: '' @ [CHR 0x27] @ t @ [CHR 0x27])), w)
      | Hashable n \<Rightarrow> (Inr (dict_get (sd_dicts w ! sd (objs w ! self)) n), w))"

text \<open>\<open>create_sde\<close>: a new empty dict becomes \<open>current_sde\<close> and is stored under the name.\<close>

definition create_sde :: "addr \<Rightarrow> pyval \<Rightarrow> world \<Rightarrow> (exn + unit) \<times> world" where
  "create_sde self sd_name w =
     (let e = length (sde_dicts w);
          w1 = w\<lparr>sde_dicts := sde_dicts w @ [[]],
                 objs := (objs w)[self := (objs w ! self)\<lparr>current_sde := Some e\<rparr>]\<rparr>;
          s = sd (objs w1 ! self)
      in (Inr (),
          w1\<lparr>sd_dicts := (sd_dicts w1)[s := setitem (sd_dicts w1 ! s) sd_name e]\<rparr>))"

definition set_sd_field :: "addr \<Rightarrow> pyval \<Rightarrow> world \<Rightarrow> (exn + unit) \<times> world" where
  "set_sd_field self sd_fieldname w =
     (Inr (), w\<lparr>objs := (objs w)[self := (objs w ! self)\<lparr>current_sd_field := sd_fieldname\<rparr>]\<rparr>)"

text \<open>
  \<open>set_sd_value\<close>: item assignment on \<open>current_sde\<close>. While \<open>current_sde\<close> is \<open>None\<close> the
  assignment raises \<open>TypeError\<close> and nothing is stored.
\<close>

definition set_sd_value :: "addr \<Rightarrow> pyval \<Rightarrow> world \<Rightarrow> (exn + unit) \<times> world" where
  "set_sd_value self v w =
     (case current_sde (objs w ! self) of
        None \<Rightarrow> (Inl (TypeError ''NoneType object does not support item assignment''), w)
      | Some e \<Rightarrow>
          (Inr (),
           w\<lparr>sde_dicts := (sde_dicts w)
                [e := setitem (sde_dicts w ! e) (current_sd_field (objs w ! self)) v]\<rparr>))"


subsection \<open>Statements that may raise\<close>

text \<open>
  A statement runs on the store and either returns a value or raises; what it wrote
  before raising stays written. \<open>andthen\<close> is sequencing: an exception of the first
  statement skips the second.
\<close>

type_synonym 'a stmt = "world \<Rightarrow> (exn + 'a) \<times> world"

definition ret :: "'a \<Rightarrow> 'a stmt" where
  "ret x w = (Inr x, w)"

definition throw :: "exn \<Rightarrow> 'a stmt" where
  "throw e w = (Inl e, w)"

definition andthen :: "'a stmt \<Rightarrow> ('a \<Rightarrow> 'b stmt) \<Rightarrow> 'b stmt" where
  "andthen m f w = (case m w of (Inl e, w') \<Rightarrow> (Inl e, w') | (Inr x, w') \<Rightarrow> f x w')"

definition lift :: "exn + 'a \<Rightarrow> 'a stmt" where
  "lift r w = (r, w)"

definition py_print :: "printed \<Rightarrow> unit stmt" where
  "py_print x w = (Inr (), w\<lparr>stdout := stdout w @ [x]\<rparr>)"

text \<open>Attribute assignment on the instance at \<open>a\<close>.\<close>

definition assign :: "addr \<Rightarrow> (SyslogMessageHead \<Rightarrow> SyslogMessageHead) \<Rightarrow> unit stmt" where
  "assign a f w = (Inr (), w\<lparr>objs := (objs w)[a := f (objs w ! a)]\<rparr>)"


subsection \<open>as_dict\<close>








subsection \<open>The native structs of the cdef\<close>

text \<open>
  A \<open>char *\<close> is \<open>None\<close> for the null pointer and otherwise the bytes stored from the
  pointed address to the end of their block. \<open>size_t\<close> and \<open>uint64_t\<close> are 64-bit words,
  \<open>unsigned short\<close> a 16-bit word, \<open>unsigned char\<close> an 8-bit word, the bit field
  \<open>flags : 3\<close> a 3-bit word. \<open>app_data\<close> is \<open>None\<close> for the null pointer or the number
  of a cffi handle. The structs behind \<open>msg_head\<close> and \<open>buffer\<close> are held in place.
\<close>

record pbuffer =
  pb_bytes :: "bytes option"
  pb_position :: "64 word"
  pb_size :: "64 word"

record syslog_msg_head =
  mh_priority :: "16 word"
  mh_version :: "16 word"
  mh_timestamp :: "bytes option"
  mh_timestamp_len :: "64 word"
  mh_hostname :: "bytes option"
  mh_hostname_len :: "64 word"
  mh_appname :: "bytes option"
  mh_appname_len :: "64 word"
  mh_processid :: "bytes option"
  mh_processid_len :: "64 word"
  mh_messageid :: "bytes option"
  mh_messageid_len :: "64 word"

record syslog_parser =
  flags :: "3 word"
  token_state :: "8 word"
  state :: "8 word"
  error :: "8 word"
  msg_head :: syslog_msg_head
  message_length :: "64 word"
  remaining :: "64 word"
  buffer :: pbuffer
  app_data :: "nat option"

type_synonym syslog_cb = "syslog_parser \<Rightarrow> world \<Rightarrow> int \<times> world"
type_synonym syslog_data_cb = "syslog_parser \<Rightarrow> bytes \<Rightarrow> 64 word \<Rightarrow> world \<Rightarrow> int \<times> world"

record syslog_parser_settings =
  on_msg_begin_cb :: syslog_cb
  on_msg_head_cb :: syslog_cb
  on_sd_element_cb :: syslog_data_cb
  on_sd_field_cb :: syslog_data_cb
  on_sd_value_cb :: syslog_data_cb
  on_msg_cb :: syslog_data_cb
  on_msg_complete_cb :: syslog_cb

text \<open>\<open>ffi.new("syslog_parser *")\<close>: a struct of zero bytes.\<close>

definition ffi_new_syslog_parser :: syslog_parser where
  "ffi_new_syslog_parser =
     \<lparr>flags = 0, token_state = 0, state = 0, error = 0,
      msg_head = \<lparr>mh_priority = 0, mh_version = 0,
                  mh_timestamp = None, mh_timestamp_len = 0,
                  mh_hostname = None, mh_hostname_len = 0,
                  mh_appname = None, mh_appname_len = 0,
                  mh_processid = None, mh_processid_len = 0,
                  mh_messageid = None, mh_messageid_len = 0\<rparr>,
      message_length = 0, remaining = 0,
      buffer = \<lparr>pb_bytes = None, pb_position = 0, pb_size = 0\<rparr>,
      app_data = None\<rparr>"

subsection \<open>cffi\<close>

text \<open>
  \<open>ffi.string(p, maxlen)\<close> on a \<open>char *\<close>: the bytes up to the first zero byte, at most
  \<open>maxlen\<close> of them. It raises \<open>RuntimeError\<close> on the null pointer and \<open>OverflowError\<close>
  for a length that does not fit the signed size type.
\<close>

definition ffi_string :: "bytes option \<Rightarrow> 64 word \<Rightarrow> exn + pyval" where
  "ffi_string p maxlen =
     (if 2 ^ 63 \<le> unat maxlen then Inl (Builtin ''OverflowError'' ''maxlen'')
      else case p of
             None \<Rightarrow> Inl (RuntimeError ''cannot use string() on NULL'')
           | Some bs \<Rightarrow> Inr (PyBytes (takeWhile (\<lambda>b. b \<noteq> 0) (take (unat maxlen) bs))))"

text \<open>\<open>ffi.new_handle(x)\<close>: a new handle that stands for the object \<open>x\<close>.\<close>

definition new_handle :: "addr \<Rightarrow> world \<Rightarrow> nat \<times> world" where
  "new_handle x w = (length (handles w), w\<lparr>handles := handles w @ [x]\<rparr>)"

text \<open>
  \<open>ffi.from_handle(p)\<close>: the object the handle stands for. The null pointer raises
  \<open>RuntimeError\<close>. cffi leaves a pointer that is no live handle undefined; the model
  raises there as well.
\<close>

definition from_handle :: "nat option \<Rightarrow> addr stmt" where
  "from_handle p w =
     (case p of
        None \<Rightarrow> (Inl (RuntimeError ''cannot use from_handle() on NULL pointer''), w)
      | Some i \<Rightarrow>
          if i < length (handles w) then (Inr (handles w ! i), w)
          else (Inl (RuntimeError ''not a handle''), w))"

text \<open>
  \<open>@ffi.callback\<close>: the native caller receives the integer the function returns. An
  exception inside the function is reported on standard error and the caller receives 0.
\<close>

definition ffi_callback :: "int stmt \<Rightarrow> world \<Rightarrow> int \<times> world" where
  "ffi_callback f w =
     (case f w of
        (Inl e, w') \<Rightarrow> (0, w'\<lparr>stderr := stderr w' @ [e]\<rparr>)
      | (Inr r, w') \<Rightarrow> (r, w'))"

subsection \<open>The callbacks\<close>

definition on_msg_begin :: syslog_cb where
  "on_msg_begin parser =
     ffi_callback (andthen (py_print (Val (PyStr ''on_msg_begin''))) (\<lambda>u. ret 0))"

definition on_msg_head_body :: "syslog_parser \<Rightarrow> int stmt" where
  "on_msg_head_body parser =
     andthen (py_print (Val (PyStr ''on_msg_head''))) (\<lambda>u.
     andthen (from_handle (app_data parser)) (\<lambda>mh.
     andthen (py_print (Obj mh)) (\<lambda>u.
     andthen (assign mh (priority_update (\<lambda>x. PyInt (uint (mh_priority (msg_head parser)))))) (\<lambda>u.
     andthen (assign mh (version_update (\<lambda>x. PyInt (uint (mh_version (msg_head parser)))))) (\<lambda>u.
     andthen (lift (ffi_string (mh_timestamp (msg_head parser))
                     (mh_timestamp_len (msg_head parser)))) (\<lambda>s.
     andthen (assign mh (timestamp_update (\<lambda>x. s))) (\<lambda>u.
     andthen (lift (ffi_string (mh_hostname (msg_head parser))
                     (mh_hostname_len (msg_head parser)))) (\<lambda>s.
     andthen (assign mh (hostname_update (\<lambda>x. s))) (\<lambda>u.
     andthen (lift (ffi_string (mh_appname (msg_head parser))
                     (mh_appname_len (msg_head parser)))) (\<lambda>s.
     andthen (assign mh (appname_update (\<lambda>x. s))) (\<lambda>u.
     andthen (lift (ffi_string (mh_processid (msg_head parser))
                     (mh_processid_len (msg_head parser)))) (\<lambda>s.
     andthen (assign mh (processid_update (\<lambda>x. s))) (\<lambda>u.
     andthen (lift (ffi_string (mh_messageid (msg_head parser))
                     (mh_messageid_len (msg_head parser)))) (\<lambda>s.
     andthen (assign mh (messageid_update (\<lambda>x. s))) (\<lambda>u.
     andthen (\<lambda>w. py_print (Val (priority (objs w ! mh))) w) (\<lambda>u.
     andthen (\<lambda>w. py_print (Val (version (objs w ! mh))) w) (\<lambda>u.
     andthen (\<lambda>w. py_print (Val (timestamp (objs w ! mh))) w) (\<lambda>u.
     andthen (\<lambda>w. py_print (Val (hostname (objs w ! mh))) w) (\<lambda>u.
     andthen (\<lambda>w. py_print (Val (appname (objs w ! mh))) w) (\<lambda>u.
     andthen (\<lambda>w. py_print (Val (processid (objs w ! mh))) w) (\<lambda>u.
     andthen (\<lambda>w. py_print (Val (messageid (objs w ! mh))) w) (\<lambda>u.
     ret 0))))))))))))))))))))))"

definition on_msg_head :: syslog_cb where
  "on_msg_head parser = ffi_callback (on_msg_head_body parser)"

definition on_sd_element :: syslog_data_cb where
  "on_sd_element parser at len =
     ffi_callback (andthen (py_print (Val (PyStr ''on_sd_element''))) (\<lambda>u. ret 0))"

definition on_sd_field :: syslog_data_cb where
  "on_sd_field parser at len =
     ffi_callback (andthen (py_print (Val (PyStr ''on_sd_field''))) (\<lambda>u. ret 0))"

definition on_sd_value :: syslog_data_cb where
  "on_sd_value parser at len =
     ffi_callback (andthen (py_print (Val (PyStr ''on_sd_value''))) (\<lambda>u. ret 0))"

definition on_msg :: syslog_data_cb where
  "on_msg parser at len =
     ffi_callback (andthen (py_print (Val (PyStr ''on_msg''))) (\<lambda>u. ret 0))"

definition on_msg_complete :: syslog_cb where
  "on_msg_complete parser =
     ffi_callback (andthen (py_print (Val (PyStr ''on_msg_complete''))) (\<lambda>u. ret 0))"


subsection \<open>SyslogMessageHandler\<close>

text \<open>
  The delegate interface: three methods, which a consumer overrides. The methods of the
  base class do nothing.
\<close>

record SyslogMessageHandler =
  message_head :: "addr \<Rightarrow> unit stmt"
  message_part :: "pyval \<Rightarrow> unit stmt"
  message_complete :: "pyval \<Rightarrow> unit stmt"

definition SyslogMessageHandler_base :: SyslogMessageHandler where
  "SyslogMessageHandler_base =
     \<lparr>message_head = (\<lambda>h. ret ()), message_part = (\<lambda>p. ret ()),
      message_complete = (\<lambda>p. ret ())\<rparr>"

subsection \<open>The native functions\<close>

text \<open>
  Modelled from the spec: \<open>uslg_parser_init\<close>, whose C source is not part of the module.
  The specification has it "allocate and zero a parser bound to an opaque context
  handle passed back on every callback". Its integer result, which \<open>Parser.__init__\<close>
  discards, is left out.
\<close>

definition uslg_parser_init :: "syslog_parser \<Rightarrow> nat option \<Rightarrow> syslog_parser" where
  "uslg_parser_init parser ad = ffi_new_syslog_parser\<lparr>app_data := ad\<rparr>"

text \<open>
  \<open>uslg_parser_exec\<close> is a parameter wherever it is called: a function from the parser
  struct, the settings, the data and its length to the integer it returns, the struct it
  leaves and the store after the callbacks it fired.
\<close>

type_synonym exec_fn =
  "syslog_parser \<Rightarrow> syslog_parser_settings \<Rightarrow> bytes \<Rightarrow> 64 word \<Rightarrow> world
     \<Rightarrow> int \<times> syslog_parser \<times> world"

subsection \<open>Parser\<close>

text \<open>
  An instance of \<open>Parser\<close> is its attribute dictionary, from attribute names to what they
  hold: a \<open>SyslogMessageHead\<close> (by reference), a cffi handle, the parser struct or the
  settings struct. Reading an attribute that was never assigned raises
  \<open>AttributeError\<close>.
\<close>

datatype attr =
    AObj addr
  | AHandle nat
  | ACParser syslog_parser
  | ASettings syslog_parser_settings

type_synonym Parser = "string \<Rightarrow> attr option"

definition getattr :: "Parser \<Rightarrow> string \<Rightarrow> exn + attr" where
  "getattr self name = (case self name of None \<Rightarrow> Inl (AttributeError name) | Some v \<Rightarrow> Inr v)"

definition Parser_init :: "SyslogMessageHandler \<Rightarrow> world \<Rightarrow> Parser \<times> world" where
  "Parser_init msg_delegate w =
     (let (mh, w1) = SyslogMessageHead_init w;
          (h, w2) = new_handle mh w1;
          cparser = uslg_parser_init ffi_new_syslog_parser (Some h);
          settings = \<lparr>on_msg_begin_cb = on_msg_begin, on_msg_head_cb = on_msg_head,
                      on_sd_element_cb = on_sd_element, on_sd_field_cb = on_sd_field,
                      on_sd_value_cb = on_sd_value, on_msg_cb = on_msg,
                      on_msg_complete_cb = on_msg_complete\<rparr>
      in ((\<lambda>name. None)
            (''_msg_head'' := Some (AObj mh),
             ''_msg_head_ctype'' := Some (AHandle h),
             ''_cparser'' := Some (ACParser cparser),
             ''_cparser_settings'' := Some (ASettings settings)),
          w2))"

text \<open>
  \<open>read\<close>: one call of \<open>uslg_parser_exec\<close> on \<open>self._cparser\<close>, \<open>self._cparser_settings\<close>,
  the data and its length. The method has no \<open>return\<close> statement: its value is \<open>None\<close>.
\<close>

definition Parser_read ::
  "exec_fn \<Rightarrow> Parser \<Rightarrow> bytes \<Rightarrow> world \<Rightarrow> (exn + pyval) \<times> Parser \<times> world" where
  "Parser_read uslg_parser_exec self bytearray w =
     (case getattr self ''_cparser'' of
        Inl e \<Rightarrow> (Inl e, self, w)
      | Inr a \<Rightarrow>
     (case getattr self ''_cparser_settings'' of
        Inl e \<Rightarrow> (Inl e, self, w)
      | Inr b \<Rightarrow>
     (case (a, b) of
        (ACParser cparser, ASettings settings) \<Rightarrow>
          (case uslg_parser_exec cparser settings bytearray (of_nat (length bytearray)) w of
             (status, cparser', w') \<Rightarrow>
               (Inr PyNone, self(''_cparser'' := Some (ACParser cparser')), w'))
      | other \<Rightarrow> (Inl (TypeError ''uslg_parser_exec: wrong argument type''), self, w))))"

text \<open>
  \<open>reset\<close>: \<open>self.cparser.reset()\<close>. The attribute read is \<open>cparser\<close>; what \<open>reset\<close>
  means depends on the object found there, and cffi data has no such method.
\<close>

definition Parser_reset :: "Parser \<Rightarrow> world \<Rightarrow> (exn + pyval) \<times> Parser \<times> world" where
  "Parser_reset self w =
     (case getattr self ''cparser'' of
        Inl e \<Rightarrow> (Inl e, self, w)
      | Inr (AObj a) \<Rightarrow> (Inr PyNone, self, SyslogMessageHead_reset a w)
      | Inr other \<Rightarrow> (Inl (AttributeError ''reset''), self, w))"


subsection \<open>What an accumulator holds\<close>

text \<open>
  The state of the instance at \<open>self\<close> with every reference followed: the seven head
  fields, the elements of \<open>sd\<close> in order with their fields, the element \<open>current_sde\<close>
  refers to, and \<open>current_sd_field\<close>.
\<close>

definition head_fields :: "SyslogMessageHead \<Rightarrow> pyval list" where
  "head_fields h =
     [priority h, version h, timestamp h, hostname h, appname h, processid h, messageid h]"

definition sd_contents :: "addr \<Rightarrow> world \<Rightarrow> (pyval, (pyval, pyval) dict) dict" where
  "sd_contents self w =
     map (\<lambda>(n, e). (n, sde_dicts w ! e)) (sd_dicts w ! sd (objs w ! self))"

definition observe ::
  "addr \<Rightarrow> world \<Rightarrow>
     pyval list \<times> (pyval, (pyval, pyval) dict) dict \<times> (pyval, pyval) dict option \<times> pyval" where
  "observe self w =
     (head_fields (objs w ! self), sd_contents self w,
      map_option (\<lambda>e. sde_dicts w ! e) (current_sde (objs w ! self)),
      current_sd_field (objs w ! self))"

text \<open>
  Every reference of the store is live: the instance exists, its \<open>sd\<close> dict exists, and
  so does every element dict that \<open>sd\<close> or \<open>current_sde\<close> refers to.
\<close>

definition live :: "addr \<Rightarrow> world \<Rightarrow> bool" where
  "live self w =
     (self < length (objs w) \<and> sd (objs w ! self) < length (sd_dicts w) \<and>
      list_all (\<lambda>e. e < length (sde_dicts w)) (map snd (sd_dicts w ! sd (objs w ! self))) \<and>
      (case current_sde (objs w ! self) of None \<Rightarrow> True | Some e \<Rightarrow> e < length (sde_dicts w)))"

subsection \<open>Concrete inputs\<close>

definition bytes_of :: "string \<Rightarrow> bytes" where
  "bytes_of s = map (\<lambda>c. of_nat (of_char c)) s"

text \<open>
  The head of the message
  \<open><34>1 2003-10-11T22:14:15.003Z mymachine su 1234 ID47 - ...\<close> as the native parser
  holds it when it calls \<open>on_msg_head\<close>, in the struct of a parser bound to handle 0.
\<close>

definition head_A :: syslog_msg_head where
  "head_A =
     \<lparr>mh_priority = 34, mh_version = 1,
      mh_timestamp = Some (bytes_of ''2003-10-11T22:14:15.003Z mymachine''),
      mh_timestamp_len = 24,
      mh_hostname = Some (bytes_of ''mymachine su''), mh_hostname_len = 9,
      mh_appname = Some (bytes_of ''su 1234''), mh_appname_len = 2,
      mh_processid = Some (bytes_of ''1234 ID47''), mh_processid_len = 4,
      mh_messageid = Some (bytes_of ''ID47 -''), mh_messageid_len = 4\<rparr>"

definition parser_A :: syslog_parser where
  "parser_A = (uslg_parser_init ffi_new_syslog_parser (Some 0))\<lparr>msg_head := head_A\<rparr>"

text \<open>
  A native run that returns \<open>r\<close>, fires no callback and leaves the struct as it is: what
  stands for \<open>uslg_parser_exec\<close> where a concrete run is evaluated and only the returned
  integer matters.
\<close>

definition exec_returning :: "int \<Rightarrow> exec_fn" where
  "exec_returning r parser settings data len w = (r, parser, w)"

text \<open>A consumer whose every method raises.\<close>

definition rejecting_handler :: SyslogMessageHandler where
  "rejecting_handler =
     \<lparr>message_head = (\<lambda>h. throw (Builtin ''ValueError'' ''rejected'')),
      message_part = (\<lambda>p. throw (Builtin ''ValueError'' ''rejected'')),
      message_complete = (\<lambda>p. throw (Builtin ''ValueError'' ''rejected''))\<rparr>"


definition parser0 :: Parser where
  "parser0 = fst (Parser_init SyslogMessageHandler_base world0)"

definition world1 :: world where
  "world1 = snd (Parser_init SyslogMessageHandler_base world0)"

text \<open>The store after the native parser delivered the head above to \<open>parser0\<close>.\<close>

definition world_A :: world where
  "world_A = snd (on_msg_head parser_A world1)"

text \<open>What \<open>observe\<close> gives for an accumulator in its initial state.\<close>

definition initial_observation ::
  "pyval list \<times> (pyval, (pyval, pyval) dict) dict \<times> (pyval, pyval) dict option \<times> pyval" where
  "initial_observation =
     ([PyStr '''', PyStr '''', PyStr '''', PyStr '''', PyStr '''', PyStr '''', PyStr ''''],
      [], None, PyNone)"

subsection \<open>Sequences of accumulator calls\<close>

datatype op = CreateSde pyval | SetSdField pyval | SetSdValue pyval

fun apply_op :: "addr \<Rightarrow> op \<Rightarrow> unit stmt" where
  "apply_op self (CreateSde n) = create_sde self n"
| "apply_op self (SetSdField f) = set_sd_field self f"
| "apply_op self (SetSdValue v) = set_sd_value self v"

text \<open>
  The calls in order. A call that raises has stored nothing, and the caller goes on with
  the next one.
\<close>

primrec run_ops :: "addr \<Rightarrow> op list \<Rightarrow> world \<Rightarrow> world" where
  "run_ops self [] w = w"
| "run_ops self (x # xs) w = run_ops self xs (snd (apply_op self x w))"

text \<open>Element names occur once in \<open>sd\<close>, and field names once in each element.\<close>

definition fields_unique :: "addr \<Rightarrow> world \<Rightarrow> bool" where
  "fields_unique self w =
     (distinct (keys (sd_contents self w)) \<and>
      list_all (\<lambda>(n, d). distinct (keys d)) (sd_contents self w))"

text \<open>The same for the element that \<open>current_sde\<close> refers to.\<close>

definition current_unique :: "addr \<Rightarrow> world \<Rightarrow> bool" where
  "current_unique self w =
     (case current_sde (objs w ! self) of
        None \<Rightarrow> True
      | Some e \<Rightarrow> distinct (keys (sde_dicts w ! e)))"

text \<open>
  The invariant of an accumulator: its references are live and its names are unique.
\<close>

definition sd_inv :: "addr \<Rightarrow> world \<Rightarrow> bool" where
  "sd_inv self w = (live self w \<and> fields_unique self w \<and> current_unique self w)"

text \<open>
  The calls a consumer would make for \<open>[exampleSDID@32473 iut="3" eventSource="App"]\<close>,
  followed by a second value for \<open>iut\<close>, on a new accumulator in the empty store.
\<close>

definition ops_B :: "op list" where
  "ops_B =
     [CreateSde (PyBytes (bytes_of ''exampleSDID@32473'')),
      SetSdField (PyBytes (bytes_of ''iut'')), SetSdValue (PyBytes (bytes_of ''3'')),
      SetSdField (PyBytes (bytes_of ''eventSource'')), SetSdValue (PyBytes (bytes_of ''App'')),
      SetSdField (PyBytes (bytes_of ''iut'')), SetSdValue (PyBytes (bytes_of ''4''))]"

definition world_B :: world where
  "world_B = run_ops 0 ops_B (snd (SyslogMessageHead_init world0))"


subsection \<open>Python 3's str and bytes.decode, for concrete runs\<close>










section \<open>Properties\<close>

subsection \<open>Parser.reset\<close>

text \<open>
  C1 (the code departs from the claim). \<open>Parser.__init__\<close> assigns \<open>_cparser\<close>, while
  \<open>Parser.reset\<close> reads \<open>cparser\<close>: on every constructed parser, in every store, the
  call raises \<open>AttributeError\<close> and resets nothing, neither the parser struct nor the
  store.
\<close>

theorem Parser_reset_raises:
  "Parser_reset (fst (Parser_init msg_delegate w0)) w =
     (Inl (AttributeError ''cparser''), fst (Parser_init msg_delegate w0), w)"
  by (simp add: Parser_reset_def Parser_init_def getattr_def split_def Let_def)

subsection \<open>Parser.read\<close>

lemma Parser_init_attrs:
  assumes "Parser_init d w0 = (P, w1)"
  shows "P ''_msg_head'' = Some (AObj (length (objs w0)))"
    and "P ''_msg_head_ctype'' = Some (AHandle (length (handles w0)))"
    and "\<exists>c. P ''_cparser'' = Some (ACParser c) \<and> app_data c = Some (length (handles w0))"
    and "handles w1 = handles w0 @ [length (objs w0)]"
    and "length (objs w1) = Suc (length (objs w0))"
  using assms
  by (auto simp: Parser_init_def SyslogMessageHead_init_def SyslogMessageHead_reset_def
      new_handle_def uslg_parser_init_def Let_def split_def)

lemma parser0_attrs:
  "parser0 ''_cparser'' = Some (ACParser (uslg_parser_init ffi_new_syslog_parser (Some 0)))"
  "parser0 ''_cparser_settings'' =
     Some (ASettings \<lparr>on_msg_begin_cb = on_msg_begin, on_msg_head_cb = on_msg_head,
                      on_sd_element_cb = on_sd_element, on_sd_field_cb = on_sd_field,
                      on_sd_value_cb = on_sd_value, on_msg_cb = on_msg,
                      on_msg_complete_cb = on_msg_complete\<rparr>)"
  by (simp_all add: parser0_def Parser_init_def SyslogMessageHead_init_def new_handle_def
      SyslogMessageHead_reset_def world0_def Let_def split_def)

text \<open>
  C2, as amended. On a parser that holds its struct and its settings, \<open>read\<close> calls
  \<open>uslg_parser_exec\<close> once, with the data and its length, keeps the struct and the store
  the call leaves, and returns \<open>None\<close>: the integer the native call returns is dropped.
\<close>

theorem Parser_read_returns_None:
  assumes "P ''_cparser'' = Some (ACParser cp)"
    and "P ''_cparser_settings'' = Some (ASettings st)"
  shows "Parser_read exec P data w =
           (Inr PyNone,
            P(''_cparser'' :=
                Some (ACParser (fst (snd (exec cp st data (of_nat (length data)) w))))),
            snd (snd (exec cp st data (of_nat (length data)) w)))"
  using assms by (simp add: Parser_read_def getattr_def split_def)

theorem Parser_read_returns_None_witness:
  "Parser_read (exec_returning 1) parser0 (bytes_of ''<34>1 '') world1 =
     (Inr PyNone,
      parser0(''_cparser'' :=
                Some (ACParser (uslg_parser_init ffi_new_syslog_parser (Some 0)))),
      world1)"
  using Parser_read_returns_None [OF parser0_attrs, of "exec_returning 1" "bytes_of ''<34>1 ''" world1]
  by (simp add: exec_returning_def)

text \<open>
  C2 as stated fails: a native run that returns 0 and one that returns 1 on the same chunk
  give the caller of \<open>read\<close> the same value, \<open>None\<close>.
\<close>

theorem Parser_read_status_counterexample:
  "fst (Parser_read (exec_returning 0) parser0 (bytes_of ''<34>1 '') world1) = Inr PyNone \<and>
   fst (Parser_read (exec_returning 1) parser0 (bytes_of ''<34>1 '') world1) = Inr PyNone"
  by (simp add: Parser_read_def getattr_def parser0_attrs exec_returning_def)

subsection \<open>on_msg_head\<close>

lemma ffi_string_valid:
  "unat n < 2 ^ 63 \<Longrightarrow>
     ffi_string (Some bs) n = Inr (PyBytes (takeWhile (\<lambda>b. b \<noteq> 0) (take (unat n) bs)))"
  by (simp add: ffi_string_def)

lemma on_msg_head_run:
  assumes ad: "app_data parser = Some i" and i: "i < length (handles w)"
    and a: "handles w ! i = a" "a < length (objs w)"
    and ts: "ffi_string (mh_timestamp (msg_head parser)) (mh_timestamp_len (msg_head parser)) = Inr ts"
    and hn: "ffi_string (mh_hostname (msg_head parser)) (mh_hostname_len (msg_head parser)) = Inr hn"
    and an: "ffi_string (mh_appname (msg_head parser)) (mh_appname_len (msg_head parser)) = Inr an"
    and pid: "ffi_string (mh_processid (msg_head parser)) (mh_processid_len (msg_head parser)) = Inr pid"
    and mid: "ffi_string (mh_messageid (msg_head parser)) (mh_messageid_len (msg_head parser)) = Inr mid"
  shows "on_msg_head parser w =
    (0, w\<lparr>objs := (objs w)[a := (objs w ! a)
               \<lparr>priority := PyInt (uint (mh_priority (msg_head parser))),
                version := PyInt (uint (mh_version (msg_head parser))),
                timestamp := ts, hostname := hn, appname := an, processid := pid,
                messageid := mid\<rparr>],
           stdout := stdout w @
             [Val (PyStr ''on_msg_head''), Obj a,
              Val (PyInt (uint (mh_priority (msg_head parser)))),
              Val (PyInt (uint (mh_version (msg_head parser)))),
              Val ts, Val hn, Val an, Val pid, Val mid]\<rparr>)"
  using assms
  by (simp add: on_msg_head_def on_msg_head_body_def ffi_callback_def andthen_def
      py_print_def ret_def from_handle_def assign_def lift_def)

lemma world1_eq:
  "world1 =
     \<lparr>objs = [\<lparr>priority = PyStr '''', version = PyStr '''', timestamp = PyStr '''',
               hostname = PyStr '''', appname = PyStr '''', processid = PyStr '''',
               messageid = PyStr '''', sd = 0, current_sde = None,
               current_sd_field = PyNone\<rparr>],
      sd_dicts = [[]], sde_dicts = [], handles = [0], stdout = [], stderr = []\<rparr>"
  by (simp add: world1_def Parser_init_def SyslogMessageHead_init_def new_handle_def
      SyslogMessageHead_reset_def world0_def blank_def Let_def split_def)

lemma on_msg_head_A_run:
  "on_msg_head parser_A world1 =
     (0, \<lparr>objs = [\<lparr>priority = PyInt 34, version = PyInt 1,
                   timestamp = PyBytes (bytes_of ''2003-10-11T22:14:15.003Z''),
                   hostname = PyBytes (bytes_of ''mymachine''),
                   appname = PyBytes (bytes_of ''su''),
                   processid = PyBytes (bytes_of ''1234''),
                   messageid = PyBytes (bytes_of ''ID47''),
                   sd = 0, current_sde = None, current_sd_field = PyNone\<rparr>],
          sd_dicts = [[]], sde_dicts = [], handles = [0],
          stdout =
           [Val (PyStr ''on_msg_head''), Obj 0, Val (PyInt 34), Val (PyInt 1),
            Val (PyBytes (bytes_of ''2003-10-11T22:14:15.003Z'')),
            Val (PyBytes (bytes_of ''mymachine'')), Val (PyBytes (bytes_of ''su'')),
            Val (PyBytes (bytes_of ''1234'')), Val (PyBytes (bytes_of ''ID47''))],
          stderr = []\<rparr>)"
  by (simp add: on_msg_head_run [where i = 0 and a = 0 and
        ts = "PyBytes (bytes_of ''2003-10-11T22:14:15.003Z'')" and
        hn = "PyBytes (bytes_of ''mymachine'')" and an = "PyBytes (bytes_of ''su'')" and
        pid = "PyBytes (bytes_of ''1234'')" and mid = "PyBytes (bytes_of ''ID47'')"]
      world1_eq parser_A_def head_A_def uslg_parser_init_def ffi_string_def bytes_of_def)

lemma world_A_eq:
  "world_A =
     \<lparr>objs = [\<lparr>priority = PyInt 34, version = PyInt 1,
               timestamp = PyBytes (bytes_of ''2003-10-11T22:14:15.003Z''),
               hostname = PyBytes (bytes_of ''mymachine''),
               appname = PyBytes (bytes_of ''su''),
               processid = PyBytes (bytes_of ''1234''),
               messageid = PyBytes (bytes_of ''ID47''),
               sd = 0, current_sde = None, current_sd_field = PyNone\<rparr>],
      sd_dicts = [[]], sde_dicts = [], handles = [0],
      stdout =
        [Val (PyStr ''on_msg_head''), Obj 0, Val (PyInt 34), Val (PyInt 1),
         Val (PyBytes (bytes_of ''2003-10-11T22:14:15.003Z'')),
         Val (PyBytes (bytes_of ''mymachine'')), Val (PyBytes (bytes_of ''su'')),
         Val (PyBytes (bytes_of ''1234'')), Val (PyBytes (bytes_of ''ID47''))],
      stderr = []\<rparr>"
  by (simp only: world_A_def on_msg_head_A_run snd_conv)

lemma on_msg_head_A: "on_msg_head parser_A world1 = (0, world_A)"
  by (simp only: world_A_eq on_msg_head_A_run)

text \<open>
  C3. Take a parser as \<open>Parser.__init__\<close> builds it, and let the native parser call
  \<open>on_msg_head\<close> later, in a store that still holds the handle and the object, with the
  \<open>app_data\<close> it was initialised with and a head whose five strings are valid spans (no
  null pointer, lengths within the signed size type). Then \<open>from_handle\<close> gives the
  object bound to \<open>_msg_head\<close> at construction, the call returns 0, and in the store it
  leaves that object has its seven head fields set from the native head (the two
  numbers, and each string cut at its length), every other attribute and every other
  object as before.
\<close>

theorem on_msg_head_sets_all_fields:
  assumes init: "Parser_init msg_delegate w0 = (P, w1)"
    and cp: "P ''_cparser'' = Some (ACParser c)" "app_data parser = app_data c"
    and later: "take (length (handles w1)) (handles w) = handles w1"
               "length (objs w1) \<le> length (objs w)"
    and ts: "mh_timestamp (msg_head parser) = Some ts"
            "unat (mh_timestamp_len (msg_head parser)) < 2 ^ 63"
    and hn: "mh_hostname (msg_head parser) = Some hn"
            "unat (mh_hostname_len (msg_head parser)) < 2 ^ 63"
    and an: "mh_appname (msg_head parser) = Some an"
            "unat (mh_appname_len (msg_head parser)) < 2 ^ 63"
    and pid: "mh_processid (msg_head parser) = Some pid"
             "unat (mh_processid_len (msg_head parser)) < 2 ^ 63"
    and mid: "mh_messageid (msg_head parser) = Some mid"
             "unat (mh_messageid_len (msg_head parser)) < 2 ^ 63"
  shows "\<exists>a. P ''_msg_head'' = Some (AObj a) \<and> a < length (objs w) \<and>
           from_handle (app_data parser) w = (Inr a, w) \<and>
           fst (on_msg_head parser w) = 0 \<and>
           objs (snd (on_msg_head parser w)) =
             (objs w)[a := (objs w ! a)
               \<lparr>priority := PyInt (uint (mh_priority (msg_head parser))),
                version := PyInt (uint (mh_version (msg_head parser))),
                timestamp := PyBytes (takeWhile (\<lambda>b. b \<noteq> 0)
                  (take (unat (mh_timestamp_len (msg_head parser))) ts)),
                hostname := PyBytes (takeWhile (\<lambda>b. b \<noteq> 0)
                  (take (unat (mh_hostname_len (msg_head parser))) hn)),
                appname := PyBytes (takeWhile (\<lambda>b. b \<noteq> 0)
                  (take (unat (mh_appname_len (msg_head parser))) an)),
                processid := PyBytes (takeWhile (\<lambda>b. b \<noteq> 0)
                  (take (unat (mh_processid_len (msg_head parser))) pid)),
                messageid := PyBytes (takeWhile (\<lambda>b. b \<noteq> 0)
                  (take (unat (mh_messageid_len (msg_head parser))) mid))\<rparr>]"
proof -
  let ?a = "length (objs w0)" and ?i = "length (handles w0)"
  have h1: "handles w1 = handles w0 @ [?a]" and l1: "length (objs w1) = Suc ?a"
    and mh: "P ''_msg_head'' = Some (AObj ?a)"
    using Parser_init_attrs [OF init] by simp_all
  from Parser_init_attrs(3) [OF init] cp have ad: "app_data parser = Some ?i" by auto
  from later(1) h1 have i: "?i < length (handles w)"
    by (metis length_append_singleton length_take lessI min.strict_boundedE)
  have "handles w ! ?i = take (length (handles w1)) (handles w) ! ?i"
    using h1 by simp
  also have "\<dots> = handles w1 ! ?i" by (simp only: later(1))
  also have "\<dots> = ?a" by (simp add: h1)
  finally have hi: "handles w ! ?i = ?a" .
  have a: "?a < length (objs w)" using later(2) l1 by simp
  note run = on_msg_head_run [OF ad i hi a
      ffi_string_valid [OF ts(2), of ts, folded ts(1)]
      ffi_string_valid [OF hn(2), of hn, folded hn(1)]
      ffi_string_valid [OF an(2), of an, folded an(1)]
      ffi_string_valid [OF pid(2), of pid, folded pid(1)]
      ffi_string_valid [OF mid(2), of mid, folded mid(1)]]
  have fh: "from_handle (app_data parser) w = (Inr ?a, w)"
    using ad i hi by (simp add: from_handle_def)
  show ?thesis
    using mh fh a by (simp add: run)
qed

theorem on_msg_head_sets_all_fields_witness:
  "parser0 ''_msg_head'' = Some (AObj 0) \<and>
   from_handle (app_data parser_A) world1 = (Inr 0, world1) \<and>
   fst (on_msg_head parser_A world1) = 0 \<and>
   head_fields (objs (snd (on_msg_head parser_A world1)) ! 0) =
     [PyInt 34, PyInt 1, PyBytes (bytes_of ''2003-10-11T22:14:15.003Z''),
      PyBytes (bytes_of ''mymachine''), PyBytes (bytes_of ''su''),
      PyBytes (bytes_of ''1234''), PyBytes (bytes_of ''ID47'')]"
proof -
  have init: "Parser_init SyslogMessageHandler_base world0 = (parser0, world1)"
    by (simp add: parser0_def world1_def)
  have ad: "app_data parser_A = app_data (uslg_parser_init ffi_new_syslog_parser (Some 0))"
    by (simp add: parser_A_def)
  have later: "take (length (handles world1)) (handles world1) = handles world1"
    "length (objs world1) \<le> length (objs world1)"
    by simp_all
  have ts: "mh_timestamp (msg_head parser_A) = Some (bytes_of ''2003-10-11T22:14:15.003Z mymachine'')"
    "unat (mh_timestamp_len (msg_head parser_A)) < 2 ^ 63"
    by (simp_all add: parser_A_def head_A_def)
  have hn: "mh_hostname (msg_head parser_A) = Some (bytes_of ''mymachine su'')"
    "unat (mh_hostname_len (msg_head parser_A)) < 2 ^ 63"
    by (simp_all add: parser_A_def head_A_def)
  have an: "mh_appname (msg_head parser_A) = Some (bytes_of ''su 1234'')"
    "unat (mh_appname_len (msg_head parser_A)) < 2 ^ 63"
    by (simp_all add: parser_A_def head_A_def)
  have pid: "mh_processid (msg_head parser_A) = Some (bytes_of ''1234 ID47'')"
    "unat (mh_processid_len (msg_head parser_A)) < 2 ^ 63"
    by (simp_all add: parser_A_def head_A_def)
  have mid: "mh_messageid (msg_head parser_A) = Some (bytes_of ''ID47 -'')"
    "unat (mh_messageid_len (msg_head parser_A)) < 2 ^ 63"
    by (simp_all add: parser_A_def head_A_def)
  from on_msg_head_sets_all_fields [OF init parser0_attrs(1) ad later ts hn an pid mid]
  obtain a where a: "parser0 ''_msg_head'' = Some (AObj a)"
    "from_handle (app_data parser_A) world1 = (Inr a, world1)"
    "fst (on_msg_head parser_A world1) = 0"
    by blast
  have "parser0 ''_msg_head'' = Some (AObj 0)"
    using Parser_init_attrs(1) [OF init] by (simp add: world0_def)
  with a have "a = 0" by simp
  with a show ?thesis
    by (simp add: on_msg_head_A) (simp add: world_A_eq head_fields_def)
qed

subsection \<open>on_msg_begin\<close>

text \<open>
  C4, as amended. \<open>on_msg_begin\<close> prints its name and returns 0; it writes nothing else.
  What any accumulator holds is the same before and after the call: the accumulator is
  in its initial state only after construction or a call of its own \<open>reset\<close>.
\<close>

theorem on_msg_begin_only_prints:
  "on_msg_begin parser w = (0, w\<lparr>stdout := stdout w @ [Val (PyStr ''on_msg_begin'')]\<rparr>) \<and>
   observe self (snd (on_msg_begin parser w)) = observe self w"
  by (simp add: on_msg_begin_def ffi_callback_def andthen_def py_print_def ret_def
      observe_def sd_contents_def)

text \<open>
  C4 as stated fails: after the head of one message was delivered, the \<open>on_msg_begin\<close> of
  the next message leaves the accumulator holding that head.
\<close>

theorem on_msg_begin_reset_counterexample:
  "observe 0 (snd (on_msg_begin parser_A (snd (on_msg_head parser_A world1)))) =
     ([PyInt 34, PyInt 1, PyBytes (bytes_of ''2003-10-11T22:14:15.003Z''),
       PyBytes (bytes_of ''mymachine''), PyBytes (bytes_of ''su''),
       PyBytes (bytes_of ''1234''), PyBytes (bytes_of ''ID47'')], [], None, PyNone) \<and>
   observe 0 (snd (on_msg_begin parser_A (snd (on_msg_head parser_A world1)))) \<noteq>
     initial_observation"
  by (simp add: on_msg_head_A)
     (simp add: world_A_eq on_msg_begin_def ffi_callback_def andthen_def py_print_def
        ret_def observe_def sd_contents_def head_fields_def initial_observation_def)

subsection \<open>MessageHandlerError\<close>

lemma ffi_string_raises_builtin: "ffi_string p n = Inl e \<Longrightarrow> class_of e = CException"
  by (auto simp: ffi_string_def RuntimeError_def split: if_splits option.splits)

lemma on_msg_head_body_cases:
  assumes "on_msg_head_body parser w = (r, w1)"
  shows "stderr w1 = stderr w \<and> (\<forall>e. r = Inl e \<longrightarrow> class_of e = CException) \<and>
         (\<forall>x. r = Inr x \<longrightarrow> x = 0)"
  using assms
  by (auto simp: on_msg_head_body_def andthen_def py_print_def ret_def from_handle_def
      assign_def lift_def RuntimeError_def
      dest: ffi_string_raises_builtin
      split: sum.splits option.splits if_splits prod.splits)

lemma stub_callback:
  "ffi_callback (andthen (py_print x) (\<lambda>u. ret 0)) w = (0, w\<lparr>stdout := stdout w @ [x]\<rparr>)"
  by (simp add: ffi_callback_def andthen_def py_print_def ret_def)

text \<open>
  C6, as amended. \<open>MessageHandlerError\<close> keeps the message and the cause it was built
  with; it is a \<open>SyslogError\<close>, it is no \<open>ParsingError\<close> and a \<open>ParsingError\<close> is no
  \<open>MessageHandlerError\<close>; its string form is the message and the string form of the cause
  inside \<open>'MessageHandler exception: {} - {}'\<close>. Nothing in the module reports an abort
  with it. The parser that \<open>Parser.__init__\<close> builds, and the store it leaves, do not
  depend on the delegate. Each of the seven callbacks returns 0 to the native caller, for
  every parser, span and store. An exception raised inside a callback body is added to
  standard error as it is, while the caller receives 0. The six callbacks other than
  \<open>on_msg_head\<close> report nothing; what \<open>on_msg_head\<close> can report is one exception of a
  builtin class. The exceptions that \<open>Parser.read\<close> and \<open>Parser.reset\<close> raise are of a
  builtin class as well.
\<close>

theorem MessageHandlerError_kind:
  "cause (MessageHandlerError m c) = Some c \<and>
   msg (MessageHandlerError m c) = m \<and>
   isinstance (MessageHandlerError m c) CSyslogError \<and>
   \<not> isinstance (MessageHandlerError m c) CParsingError \<and>
   \<not> isinstance (ParsingError m') CMessageHandlerError \<and>
   str_exn (MessageHandlerError m c) = ''MessageHandler exception: '' @ m @ '' - '' @ str_exn c \<and>
   Parser_init msg_delegate w = Parser_init msg_delegate' w \<and>
   fst (on_msg_begin parser w) = 0 \<and> fst (on_msg_head parser w) = 0 \<and>
   fst (on_sd_element parser at len w) = 0 \<and> fst (on_sd_field parser at len w) = 0 \<and>
   fst (on_sd_value parser at len w) = 0 \<and> fst (on_msg parser at len w) = 0 \<and>
   fst (on_msg_complete parser w) = 0 \<and>
   (\<forall>e w1. body w = (Inl e, w1) \<longrightarrow>
      ffi_callback body w = (0, w1\<lparr>stderr := stderr w1 @ [e]\<rparr>)) \<and>
   stderr (snd (on_msg_begin parser w)) = stderr w \<and>
   stderr (snd (on_sd_element parser at len w)) = stderr w \<and>
   stderr (snd (on_sd_field parser at len w)) = stderr w \<and>
   stderr (snd (on_sd_value parser at len w)) = stderr w \<and>
   stderr (snd (on_msg parser at len w)) = stderr w \<and>
   stderr (snd (on_msg_complete parser w)) = stderr w \<and>
   (stderr (snd (on_msg_head parser w)) = stderr w \<or>
    (\<exists>e. on_msg_head_body parser w = (Inl e, snd (on_msg_head_body parser w)) \<and>
         class_of e = CException \<and>
         stderr (snd (on_msg_head parser w)) = stderr w @ [e])) \<and>
   (\<forall>e. fst (Parser_read exec P data w) = Inl e \<longrightarrow> class_of e = CException) \<and>
   (\<forall>e. fst (Parser_reset P w) = Inl e \<longrightarrow> class_of e = CException)"
proof -
  obtain r w1 where body: "on_msg_head_body parser w = (r, w1)"
    by (cases "on_msg_head_body parser w")
  note facts = on_msg_head_body_cases [OF body]
  have head0: "fst (on_msg_head parser w) = 0"
    using facts body by (cases r) (simp_all add: on_msg_head_def ffi_callback_def)
  have head_err: "stderr (snd (on_msg_head parser w)) = stderr w \<or>
    (\<exists>e. on_msg_head_body parser w = (Inl e, snd (on_msg_head_body parser w)) \<and>
         class_of e = CException \<and>
         stderr (snd (on_msg_head parser w)) = stderr w @ [e])"
    using facts body by (cases r) (simp_all add: on_msg_head_def ffi_callback_def)
  have wrap: "\<forall>e w1. body w = (Inl e, w1) \<longrightarrow>
      ffi_callback body w = (0, w1\<lparr>stderr := stderr w1 @ [e]\<rparr>)"
    by (simp add: ffi_callback_def)
  have rd: "\<forall>e. fst (Parser_read exec P data w) = Inl e \<longrightarrow> class_of e = CException"
    by (auto simp: Parser_read_def getattr_def AttributeError_def TypeError_def
        split: option.splits attr.splits prod.splits)
  have rs: "\<forall>e. fst (Parser_reset P w) = Inl e \<longrightarrow> class_of e = CException"
    by (auto simp: Parser_reset_def getattr_def AttributeError_def
        split: option.splits attr.splits)
  have stubs:
    "on_msg_begin parser w = (0, w\<lparr>stdout := stdout w @ [Val (PyStr ''on_msg_begin'')]\<rparr>)"
    "on_sd_element parser at len w =
       (0, w\<lparr>stdout := stdout w @ [Val (PyStr ''on_sd_element'')]\<rparr>)"
    "on_sd_field parser at len w = (0, w\<lparr>stdout := stdout w @ [Val (PyStr ''on_sd_field'')]\<rparr>)"
    "on_sd_value parser at len w = (0, w\<lparr>stdout := stdout w @ [Val (PyStr ''on_sd_value'')]\<rparr>)"
    "on_msg parser at len w = (0, w\<lparr>stdout := stdout w @ [Val (PyStr ''on_msg'')]\<rparr>)"
    "on_msg_complete parser w =
       (0, w\<lparr>stdout := stdout w @ [Val (PyStr ''on_msg_complete'')]\<rparr>)"
    by (simp_all add: on_msg_begin_def on_sd_element_def on_sd_field_def on_sd_value_def
        on_msg_def on_msg_complete_def stub_callback)
  have cls: "cause (MessageHandlerError m c) = Some c \<and>
   msg (MessageHandlerError m c) = m \<and>
   isinstance (MessageHandlerError m c) CSyslogError \<and>
   \<not> isinstance (MessageHandlerError m c) CParsingError \<and>
   \<not> isinstance (ParsingError m') CMessageHandlerError \<and>
   str_exn (MessageHandlerError m c) = ''MessageHandler exception: '' @ m @ '' - '' @ str_exn c \<and>
   Parser_init msg_delegate w = Parser_init msg_delegate' w"
    by (simp add: isinstance_def Parser_init_def)
  from cls head0 head_err wrap rd rs show ?thesis
    by (simp only: stubs fst_conv snd_conv simp_thms)
       (simp add: )
qed

theorem MessageHandlerError_kind_witness:
  "on_msg_head_body (parser_A\<lparr>msg_head := head_A\<lparr>mh_timestamp := None\<rparr>\<rparr>) world1 =
     (Inl (RuntimeError ''cannot use string() on NULL''),
      world1\<lparr>objs := [(objs world1 ! 0)\<lparr>priority := PyInt 34, version := PyInt 1\<rparr>],
             stdout := [Val (PyStr ''on_msg_head''), Obj 0]\<rparr>) \<and>
   on_msg_head (parser_A\<lparr>msg_head := head_A\<lparr>mh_timestamp := None\<rparr>\<rparr>) world1 =
     (0, world1\<lparr>objs := [(objs world1 ! 0)\<lparr>priority := PyInt 34, version := PyInt 1\<rparr>],
               stdout := [Val (PyStr ''on_msg_head''), Obj 0],
               stderr := [RuntimeError ''cannot use string() on NULL'']\<rparr>) \<and>
   fst (Parser_reset parser0 world1) = Inl (AttributeError ''cparser'')"
proof -
  let ?p = "parser_A\<lparr>msg_head := head_A\<lparr>mh_timestamp := None\<rparr>\<rparr>"
  have null:
    "on_msg_head_body ?p world1 =
       (Inl (RuntimeError ''cannot use string() on NULL''),
        world1\<lparr>objs := [(objs world1 ! 0)\<lparr>priority := PyInt 34, version := PyInt 1\<rparr>],
               stdout := [Val (PyStr ''on_msg_head''), Obj 0]\<rparr>)"
    by (simp add: on_msg_head_body_def andthen_def py_print_def ret_def from_handle_def
        assign_def lift_def ffi_string_def parser_A_def head_A_def uslg_parser_init_def
        world1_eq)
  from MessageHandlerError_kind [where body = "on_msg_head_body ?p" and w = world1]
  have "\<forall>e w1. on_msg_head_body ?p world1 = (Inl e, w1) \<longrightarrow>
      ffi_callback (on_msg_head_body ?p) world1 = (0, w1\<lparr>stderr := stderr w1 @ [e]\<rparr>)"
    by blast
  with null have "on_msg_head ?p world1 =
     (0, world1\<lparr>objs := [(objs world1 ! 0)\<lparr>priority := PyInt 34, version := PyInt 1\<rparr>],
               stdout := [Val (PyStr ''on_msg_head''), Obj 0],
               stderr := [RuntimeError ''cannot use string() on NULL'']\<rparr>)"
    by (simp add: on_msg_head_def) (simp add: world1_eq)
  moreover have "fst (Parser_reset parser0 world1) = Inl (AttributeError ''cparser'')"
    by (simp add: Parser_reset_def getattr_def parser0_def Parser_init_def split_def Let_def)
  ultimately show ?thesis using null by simp
qed

text \<open>
  C6 as stated fails. With a consumer whose every method raises, the callback that
  delivers the head returns 0 and reports no error at all; and an exception that is
  raised inside a callback (here by \<open>ffi.string\<close> on a null pointer) reaches standard
  error as it is, not wrapped, while the native parser receives 0.
\<close>

theorem callback_abort_counterexample:
  "fst (on_msg_head parser_A (snd (Parser_init rejecting_handler world0))) = 0 \<and>
   stderr (snd (on_msg_head parser_A (snd (Parser_init rejecting_handler world0)))) = [] \<and>
   fst (on_msg_head (parser_A\<lparr>msg_head := head_A\<lparr>mh_timestamp := None\<rparr>\<rparr>) world1) = 0 \<and>
   stderr (snd (on_msg_head (parser_A\<lparr>msg_head := head_A\<lparr>mh_timestamp := None\<rparr>\<rparr>) world1)) =
     [RuntimeError ''cannot use string() on NULL'']"
proof -
  have w: "snd (Parser_init rejecting_handler world0) = world1"
    by (simp add: world1_def Parser_init_def)
  have null:
    "on_msg_head_body (parser_A\<lparr>msg_head := head_A\<lparr>mh_timestamp := None\<rparr>\<rparr>) world1 =
       (Inl (RuntimeError ''cannot use string() on NULL''),
        world1\<lparr>objs := [(objs world1 ! 0)\<lparr>priority := PyInt 34, version := PyInt 1\<rparr>],
               stdout := [Val (PyStr ''on_msg_head''), Obj 0]\<rparr>)"
    by (simp add: on_msg_head_body_def andthen_def py_print_def ret_def from_handle_def
        assign_def lift_def ffi_string_def parser_A_def head_A_def uslg_parser_init_def
        world1_eq)
  have "fst (on_msg_head parser_A world1) = 0" "stderr (snd (on_msg_head parser_A world1)) = []"
    by (simp_all add: on_msg_head_A) (simp add: world_A_eq)
  moreover have
    "on_msg_head (parser_A\<lparr>msg_head := head_A\<lparr>mh_timestamp := None\<rparr>\<rparr>) world1 =
       (0, world1\<lparr>objs := [(objs world1 ! 0)\<lparr>priority := PyInt 34, version := PyInt 1\<rparr>],
               stdout := [Val (PyStr ''on_msg_head''), Obj 0],
               stderr := stderr world1 @ [RuntimeError ''cannot use string() on NULL'']\<rparr>)"
    by (simp add: on_msg_head_def ffi_callback_def null)
  ultimately show ?thesis
    by (simp add: w) (simp add: world1_eq)
qed

subsection \<open>SyslogMessageHead: construction, reset, get_sd\<close>

lemma observe_reset:
  "self < length (objs w) \<Longrightarrow> observe self (SyslogMessageHead_reset self w) = initial_observation"
  by (simp add: observe_def SyslogMessageHead_reset_def Let_def head_fields_def
      sd_contents_def initial_observation_def)

lemma length_objs_reset [simp]:
  "length (objs (SyslogMessageHead_reset self w)) = length (objs w)"
  by (simp add: SyslogMessageHead_reset_def Let_def)

text \<open>
  C8. A new instance holds seven empty strings, an empty \<open>sd\<close>, and \<open>None\<close> for
  \<open>current_sde\<close> and \<open>current_sd_field\<close>; so does any instance after \<open>reset\<close>, whatever it
  held; and a second \<open>reset\<close> leaves what the first one left.
\<close>

theorem fresh_head_is_reset_state:
  assumes "self < length (objs w)"
  shows "observe (fst (SyslogMessageHead_init w0)) (snd (SyslogMessageHead_init w0)) =
           initial_observation \<and>
         observe self (SyslogMessageHead_reset self w) = initial_observation \<and>
         observe self (SyslogMessageHead_reset self (SyslogMessageHead_reset self w)) =
           observe self (SyslogMessageHead_reset self w)"
  using assms by (simp add: observe_reset SyslogMessageHead_init_def Let_def)

theorem fresh_head_is_reset_state_witness:
  "observe 0 world_A \<noteq> initial_observation \<and>
   observe 0 (SyslogMessageHead_reset 0 world_A) = initial_observation \<and>
   observe (fst (SyslogMessageHead_init world_A)) (snd (SyslogMessageHead_init world_A)) =
     initial_observation"
  using fresh_head_is_reset_state [of 0 world_A world_A]
  by (simp add: world_A_eq observe_def head_fields_def initial_observation_def)

text \<open>
  C9, as amended. \<open>get_sd\<close> leaves the store as it is, whatever the name. For a hashable
  name it does not raise: it returns the element stored under the name where \<open>sd\<close> holds
  the name, and \<open>None\<close> otherwise; right after \<open>create_sde\<close> the element stored under the
  name is the one just created. For a name of an unhashable type it raises \<open>TypeError\<close>.
\<close>

theorem get_sd_element_or_None:
  "snd (get_sd self name w) = w \<and>
   (\<forall>n. name = Hashable n \<longrightarrow>
      (n \<in> set (keys (sd_dicts w ! sd (objs w ! self))) \<longrightarrow>
         (\<exists>e. fst (get_sd self name w) = Inr (Some e) \<and>
              (n, e) \<in> set (sd_dicts w ! sd (objs w ! self)))) \<and>
      (n \<notin> set (keys (sd_dicts w ! sd (objs w ! self))) \<longrightarrow>
         fst (get_sd self name w) = Inr None) \<and>
      (live self w \<longrightarrow>
         fst (get_sd self name (snd (create_sde self n w))) =
           Inr (Some (length (sde_dicts w))))) \<and>
   (\<forall>t. name = Unhashable t \<longrightarrow>
      fst (get_sd self name w) =
        Inl (TypeError (''unhashable type: '' @ [CHR 0x27] @ t @ [CHR 0x27])))"
proof -
  have 1: "n \<in> set (keys d) \<Longrightarrow> \<exists>e. dict_get d n = Some e \<and> (n, e) \<in> set d"
    for d :: "(pyval, addr) dict" and n
    by (induction d) (auto simp: dict_get_def keys_def)
  have 2: "n \<notin> set (keys d) \<Longrightarrow> dict_get d n = None" for d :: "(pyval, addr) dict" and n
    by (induction d) (auto simp: dict_get_def keys_def)
  have 3: "dict_get (setitem d n e) n = Some e" for d :: "(pyval, addr) dict" and e n
    by (induction d) (auto simp: dict_get_def)
  show ?thesis
    using 1 2
    by (cases name) (auto simp: get_sd_def create_sde_def Let_def live_def 3)
qed

theorem get_sd_element_or_None_witness:
  "fst (get_sd 0 (Hashable (PyBytes (bytes_of ''exampleSDID@32473'')))
          (snd (create_sde 0 (PyBytes (bytes_of ''exampleSDID@32473'')) world1))) =
     Inr (Some 0) \<and>
   fst (get_sd 0 (Hashable (PyBytes (bytes_of ''origin'')))
          (snd (create_sde 0 (PyBytes (bytes_of ''exampleSDID@32473'')) world1))) =
     Inr None \<and>
   snd (get_sd 0 (Unhashable ''list'')
          (snd (create_sde 0 (PyBytes (bytes_of ''exampleSDID@32473'')) world1))) =
     snd (create_sde 0 (PyBytes (bytes_of ''exampleSDID@32473'')) world1)"
  using get_sd_element_or_None [of 0 "Hashable (PyBytes (bytes_of ''exampleSDID@32473''))" world1]
    get_sd_element_or_None [of 0 "Hashable (PyBytes (bytes_of ''origin''))"
      "snd (create_sde 0 (PyBytes (bytes_of ''exampleSDID@32473'')) world1)"]
    get_sd_element_or_None [of 0 "Unhashable ''list''"
      "snd (create_sde 0 (PyBytes (bytes_of ''exampleSDID@32473'')) world1)"]
  by (simp add: world1_eq live_def create_sde_def Let_def keys_def bytes_of_def)

text \<open>
  C9 as stated fails: the name may be any object, and for a list \<open>get_sd\<close> raises instead
  of returning the element or \<open>None\<close>.
\<close>

theorem get_sd_unhashable_counterexample:
  "fst (get_sd 0 (Unhashable ''list'') world1) =
     Inl (Builtin ''TypeError'' (''unhashable type: '' @ [CHR 0x27] @ ''list'' @ [CHR 0x27]))"
  by (simp add: get_sd_def TypeError_def)

subsection \<open>Structured data: names stay unique\<close>

lemma keys_setitem:
  "keys (setitem d k v) = (if k \<in> set (keys d) then keys d else keys d @ [k])"
  by (induction d) (auto simp: keys_def)

lemma distinct_keys_setitem: "distinct (keys d) \<Longrightarrow> distinct (keys (setitem d k v))"
  by (simp add: keys_setitem)

lemma values_setitem: "set (map snd (setitem d k v)) \<subseteq> insert v (set (map snd d))"
  by (induction d) auto

lemma filter_absent: "k \<notin> set (keys d) \<Longrightarrow> filter (\<lambda>p. fst p = k) d = []"
  by (induction d) (auto simp: keys_def)

lemma filter_setitem:
  "distinct (keys d) \<Longrightarrow> filter (\<lambda>p. fst p = k) (setitem d k v) = [(k, v)]"
proof (induction d)
  case Nil
  then show ?case by simp
next
  case (Cons p d)
  show ?case
  proof (cases "fst p = k")
    case True
    with Cons.prems have "k \<notin> set (keys d)" by (simp add: keys_def)
    with True show ?thesis by (simp add: filter_absent)
  next
    case False
    with Cons show ?thesis by (simp add: keys_def)
  qed
qed

lemma fields_unique_iff:
  "fields_unique self w =
     (distinct (keys (sd_dicts w ! sd (objs w ! self))) \<and>
      (\<forall>e \<in> set (map snd (sd_dicts w ! sd (objs w ! self))).
         distinct (keys (sde_dicts w ! e))))"
  by (auto simp: fields_unique_def sd_contents_def keys_def list_all_iff comp_def
      case_prod_beta)

lemma sd_inv_init: "sd_inv (fst (SyslogMessageHead_init w)) (snd (SyslogMessageHead_init w))"
  by (simp add: sd_inv_def live_def fields_unique_iff current_unique_def
      SyslogMessageHead_init_def SyslogMessageHead_reset_def Let_def keys_def)

lemma create_sde_world:
  assumes "self < length (objs w)"
  shows "objs (snd (create_sde self n w)) =
           (objs w)[self := (objs w ! self)\<lparr>current_sde := Some (length (sde_dicts w))\<rparr>]"
    and "sde_dicts (snd (create_sde self n w)) = sde_dicts w @ [[]]"
    and "sd_dicts (snd (create_sde self n w)) =
           (sd_dicts w)[sd (objs w ! self) :=
              setitem (sd_dicts w ! sd (objs w ! self)) n (length (sde_dicts w))]"
  using assms by (simp_all add: create_sde_def Let_def)

lemma sd_inv_create_sde:
  assumes "sd_inv self w"
  shows "sd_inv self (snd (create_sde self n w))"
proof -
  let ?h = "objs w ! self" and ?m = "length (sde_dicts w)"
  let ?S = "sd_dicts w ! sd ?h"
  let ?w = "snd (create_sde self n w)"
  from assms have self: "self < length (objs w)" and s: "sd ?h < length (sd_dicts w)"
    and el: "\<forall>e \<in> set (map snd ?S). e < ?m"
    and dk: "distinct (keys ?S)"
    and de: "\<forall>e \<in> set (map snd ?S). distinct (keys (sde_dicts w ! e))"
    by (auto simp: sd_inv_def live_def fields_unique_iff list_all_iff)
  note cw = create_sde_world [OF self, of n]
  have h': "objs ?w ! self = ?h\<lparr>current_sde := Some ?m\<rparr>"
    using self by (simp add: cw)
  have S': "sd_dicts ?w ! sd (objs ?w ! self) = setitem ?S n ?m"
    using s by (simp add: h') (simp add: cw(3))
  have sub: "set (map snd (setitem ?S n ?m)) \<subseteq> insert ?m (set (map snd ?S))"
    by (rule values_setitem)
  have lt: "e < Suc ?m" if "e \<in> set (map snd (setitem ?S n ?m))" for e
  proof -
    from that sub have "e = ?m \<or> e \<in> set (map snd ?S)" by blast
    with el show ?thesis by auto
  qed
  have dd: "distinct (keys ((sde_dicts w @ [[]]) ! e))"
    if "e \<in> set (map snd (setitem ?S n ?m))" for e
  proof -
    from that sub have "e = ?m \<or> e \<in> set (map snd ?S)" by blast
    then show ?thesis
    proof
      assume "e = ?m"
      then show ?thesis by (simp add: keys_def)
    next
      assume e: "e \<in> set (map snd ?S)"
      with el have "e < ?m" by blast
      moreover from de e have "distinct (keys (sde_dicts w ! e))" by blast
      ultimately show ?thesis by (simp add: nth_append)
    qed
  qed
  have "live self ?w"
    unfolding live_def S' using self s lt
    by (simp add: h' list_all_iff) (simp add: cw)
  moreover have "fields_unique self ?w"
    unfolding fields_unique_iff S' using dk dd
    by (simp add: distinct_keys_setitem cw(2))
  moreover have "current_unique self ?w"
    by (simp add: current_unique_def h' cw(2) keys_def)
  ultimately show ?thesis by (simp add: sd_inv_def)
qed

lemma sd_inv_set_sd_field:
  assumes "sd_inv self w"
  shows "sd_inv self (snd (set_sd_field self f w))"
  using assms
  by (auto simp: sd_inv_def live_def fields_unique_iff current_unique_def set_sd_field_def
      split: option.splits)

lemma sd_inv_set_sd_value:
  assumes "sd_inv self w"
  shows "sd_inv self (snd (set_sd_value self v w))"
proof (cases "current_sde (objs w ! self)")
  case None
  with assms show ?thesis by (simp add: set_sd_value_def)
next
  case (Some c)
  let ?h = "objs w ! self"
  let ?S = "sd_dicts w ! sd ?h"
  let ?D = "(sde_dicts w)[c := setitem (sde_dicts w ! c) (current_sd_field ?h) v]"
  from assms Some have c: "c < length (sde_dicts w)" and dc: "distinct (keys (sde_dicts w ! c))"
    and de: "\<forall>e \<in> set (map snd ?S). distinct (keys (sde_dicts w ! e))"
    and lv: "live self w" and dk: "distinct (keys ?S)"
    by (auto simp: sd_inv_def live_def fields_unique_iff current_unique_def)
  have "distinct (keys (?D ! e))" if "e = c \<or> e \<in> set (map snd ?S)" for e
    using that c dc de by (cases "e = c") (auto simp: distinct_keys_setitem)
  then show ?thesis
    using Some lv dk c dc
    by (simp add: sd_inv_def live_def fields_unique_iff current_unique_def set_sd_value_def
        distinct_keys_setitem)
qed

lemma sd_inv_apply_op: "sd_inv self w \<Longrightarrow> sd_inv self (snd (apply_op self x w))"
  by (cases x) (simp_all add: sd_inv_create_sde sd_inv_set_sd_field sd_inv_set_sd_value)

lemma sd_inv_run_ops: "sd_inv self w \<Longrightarrow> sd_inv self (run_ops self ops w)"
  by (induction ops arbitrary: w) (simp_all add: sd_inv_apply_op)

lemma redeclare_field:
  assumes "sd_inv self w" and "current_sde (objs w ! self) = Some e"
  shows "filter (\<lambda>p. fst p = f)
           (sde_dicts (run_ops self [SetSdField f, SetSdValue v1, SetSdField f, SetSdValue v2] w) ! e) =
         [(f, v2)]"
proof -
  from assms have self: "self < length (objs w)" and e: "e < length (sde_dicts w)"
    and d: "distinct (keys (sde_dicts w ! e))"
    by (auto simp: sd_inv_def live_def current_unique_def)
  have "distinct (keys (setitem (sde_dicts w ! e) f v1))"
    using d by (rule distinct_keys_setitem)
  then show ?thesis
    using self e assms(2)
    by (simp add: set_sd_field_def set_sd_value_def filter_setitem)
qed

lemma create_sde_fresh:
  assumes "self < length (objs w)" and "sd (objs w ! self) < length (sd_dicts w)"
    and "distinct (keys (sd_dicts w ! sd (objs w ! self)))"
  shows "current_sde (objs (snd (create_sde self n w)) ! self) = Some (length (sde_dicts w))"
    and "sde_dicts (snd (create_sde self n w)) ! length (sde_dicts w) = []"
    and "filter (\<lambda>p. fst p = n)
           (sd_dicts (snd (create_sde self n w)) ! sd (objs (snd (create_sde self n w)) ! self)) =
         [(n, length (sde_dicts w))]"
  using assms by (simp_all add: create_sde_def Let_def filter_setitem)

lemma recreate_element:
  assumes "sd_inv self w"
  shows "\<exists>e. current_sde (objs (run_ops self [CreateSde n, SetSdField f, SetSdValue v, CreateSde n] w) ! self) = Some e \<and>
           sde_dicts (run_ops self [CreateSde n, SetSdField f, SetSdValue v, CreateSde n] w) ! e = [] \<and>
           filter (\<lambda>p. fst p = n)
             (sd_dicts (run_ops self [CreateSde n, SetSdField f, SetSdValue v, CreateSde n] w) !
                sd (objs (run_ops self [CreateSde n, SetSdField f, SetSdValue v, CreateSde n] w) ! self)) =
           [(n, e)]"
proof -
  define w' where "w' = run_ops self [CreateSde n, SetSdField f, SetSdValue v] w"
  have inv: "sd_inv self w'" unfolding w'_def using assms by (rule sd_inv_run_ops)
  then have self: "self < length (objs w')" and s: "sd (objs w' ! self) < length (sd_dicts w')"
    and d: "distinct (keys (sd_dicts w' ! sd (objs w' ! self)))"
    by (auto simp: sd_inv_def live_def fields_unique_iff)
  have split: "run_ops self [CreateSde n, SetSdField f, SetSdValue v, CreateSde n] w =
      snd (create_sde self n w')"
    by (simp add: w'_def)
  show ?thesis
    unfolding split using create_sde_fresh [OF self s d, of n] by blast
qed

lemma world_B_eq:
  "world_B =
     \<lparr>objs = [\<lparr>priority = PyStr '''', version = PyStr '''', timestamp = PyStr '''',
               hostname = PyStr '''', appname = PyStr '''', processid = PyStr '''',
               messageid = PyStr '''', sd = 0, current_sde = Some 0,
               current_sd_field = PyBytes (bytes_of ''iut'')\<rparr>],
      sd_dicts = [[(PyBytes (bytes_of ''exampleSDID@32473''), 0)]],
      sde_dicts = [[(PyBytes (bytes_of ''iut''), PyBytes (bytes_of ''4'')),
                   (PyBytes (bytes_of ''eventSource''), PyBytes (bytes_of ''App''))]],
      handles = [], stdout = [], stderr = []\<rparr>"
  by (simp add: world_B_def ops_B_def SyslogMessageHead_init_def SyslogMessageHead_reset_def
      world0_def blank_def create_sde_def set_sd_field_def set_sd_value_def Let_def
      bytes_of_def)

text \<open>
  C7. Start from a new accumulator and make any sequence of \<open>create_sde\<close>,
  \<open>set_sd_field\<close> and \<open>set_sd_value\<close> calls. In the state reached, element names occur
  once in \<open>sd\<close> and field names once in every element (and in the current element).
  Declaring a field name twice in the current element leaves exactly one entry for
  it, with the later value; creating an element name again leaves exactly one entry for
  it, a new empty element, which is also the current one.
\<close>

theorem sd_names_stay_unique:
  assumes "SyslogMessageHead_init w0 = (self, w1)" and "w = run_ops self ops w1"
  shows "fields_unique self w \<and> current_unique self w \<and>
         (\<forall>e. current_sde (objs w ! self) = Some e \<longrightarrow>
            filter (\<lambda>p. fst p = f)
              (sde_dicts (run_ops self
                 [SetSdField f, SetSdValue v1, SetSdField f, SetSdValue v2] w) ! e) =
            [(f, v2)]) \<and>
         (\<exists>e. current_sde (objs (run_ops self
                 [CreateSde n, SetSdField f, SetSdValue v, CreateSde n] w) ! self) = Some e \<and>
              sde_dicts (run_ops self
                 [CreateSde n, SetSdField f, SetSdValue v, CreateSde n] w) ! e = [] \<and>
              filter (\<lambda>p. fst p = n)
                (sd_dicts (run_ops self
                   [CreateSde n, SetSdField f, SetSdValue v, CreateSde n] w) !
                 sd (objs (run_ops self
                   [CreateSde n, SetSdField f, SetSdValue v, CreateSde n] w) ! self)) =
              [(n, e)])"
proof -
  have "sd_inv self w1"
    using sd_inv_init [of w0] assms(1) by simp
  then have inv: "sd_inv self w"
    unfolding assms(2) by (rule sd_inv_run_ops)
  then have "fields_unique self w" "current_unique self w"
    by (simp_all add: sd_inv_def)
  moreover have "\<forall>e. current_sde (objs w ! self) = Some e \<longrightarrow>
      filter (\<lambda>p. fst p = f)
        (sde_dicts (run_ops self
           [SetSdField f, SetSdValue v1, SetSdField f, SetSdValue v2] w) ! e) =
      [(f, v2)]"
    using redeclare_field [OF inv] by blast
  ultimately show ?thesis
    using recreate_element [OF inv, of n f v] by blast
qed

theorem sd_names_stay_unique_witness:
  "sd_contents 0 world_B =
     [(PyBytes (bytes_of ''exampleSDID@32473''),
       [(PyBytes (bytes_of ''iut''), PyBytes (bytes_of ''4'')),
        (PyBytes (bytes_of ''eventSource''), PyBytes (bytes_of ''App''))])] \<and>
   fields_unique 0 world_B \<and> current_unique 0 world_B"
proof -
  have init: "SyslogMessageHead_init world0 = (0, snd (SyslogMessageHead_init world0))"
    by (simp add: SyslogMessageHead_init_def world0_def Let_def)
  from sd_names_stay_unique [OF init world_B_def]
  have "fields_unique 0 world_B \<and> current_unique 0 world_B" by blast
  then show ?thesis
    by (simp add: sd_contents_def) (simp add: world_B_eq)
qed

subsection \<open>as_dict\<close>
























end
